theory Spec2Isabelle
  imports Main "HOL-Library.AList"
begin

section \<open>Go strings\<close>

text \<open>
  A Go string is a sequence of bytes, modelled as a \<open>char list\<close>. The character
  classes below are the one-byte (ASCII) ones: \<open>\s\<close>, \<open>\w\<close> and \<open>\b\<close> of Go's regexp
  package are ASCII-only by definition; \<open>strings.TrimSpace\<close>, \<open>strings.ToLower\<close> and the
  names of a replacement template also know the Unicode white space, letters and
  digits that are encoded in several bytes, and those are not modelled.
\<close>

definition isSpace :: "char \<Rightarrow> bool" where
  \<comment> \<open>\<open>unicode.IsSpace\<close> on one byte: tab, line feed, vertical tab, form feed, carriage return, space\<close>
  "isSpace c = (c \<in> set [CHR 0x09, CHR 0x0A, CHR 0x0B, CHR 0x0C, CHR 0x0D, CHR 0x20])"

definition isDigit :: "char \<Rightarrow> bool" where
  "isDigit c = (c \<in> set ''0123456789'')"

definition isUpper :: "char \<Rightarrow> bool" where
  "isUpper c = (c \<in> set ''ABCDEFGHIJKLMNOPQRSTUVWXYZ'')"

definition isLower :: "char \<Rightarrow> bool" where
  "isLower c = (c \<in> set ''abcdefghijklmnopqrstuvwxyz'')"

definition isWord :: "char \<Rightarrow> bool" where
  \<comment> \<open>the class \<open>\w\<close>: \<open>[0-9A-Za-z_]\<close>\<close>
  "isWord c = (isDigit c \<or> isUpper c \<or> isLower c \<or> c = CHR ''_'')"

definition TrimSpace :: "string \<Rightarrow> string" where
  "TrimSpace s = rev (dropWhile isSpace (rev (dropWhile isSpace s)))"

definition HasPrefix :: "string \<Rightarrow> string \<Rightarrow> bool" where
  "HasPrefix s pre = (take (length pre) s = pre)"

definition HasSuffix :: "string \<Rightarrow> string \<Rightarrow> bool" where
  "HasSuffix s suf = (length suf \<le> length s \<and> drop (length s - length suf) s = suf)"

definition lowerChar :: "char \<Rightarrow> char" where
  "lowerChar c = (if isUpper c then char_of (of_char c + (32::nat)) else c)"

definition ToLower :: "string \<Rightarrow> string" where
  "ToLower s = map lowerChar s"

fun Fields_from :: "string \<Rightarrow> string \<Rightarrow> string list" where
  \<comment> \<open>the field read so far, then the rest of the input\<close>
  "Fields_from cur [] = (if cur = [] then [] else [cur])"
| "Fields_from cur (c # cs) =
     (if isSpace c then (if cur = [] then Fields_from [] cs else cur # Fields_from [] cs)
      else Fields_from (cur @ [c]) cs)"

definition Fields :: "string \<Rightarrow> string list" where
  "Fields s = Fields_from [] s"

definition Trim :: "string \<Rightarrow> string \<Rightarrow> string" where
  "Trim s cutset =
     rev (dropWhile (\<lambda>c. c \<in> set cutset) (rev (dropWhile (\<lambda>c. c \<in> set cutset) s)))"


section \<open>The regular expressions of the preprocessor\<close>

text \<open>
  The four patterns of the preprocessor use literals, the classes \<open>\s\<close>, \<open>\w\<close>, \<open>.\<close> and
  \<open>[^"]\<close> under \<open>+\<close>, \<open>*\<close> and \<open>+?\<close>, capture groups, one optional non-capturing group and
  the anchors \<open>^\<close> and \<open>$\<close>. \<open>matches r s\<close> lists the ways \<open>r\<close> can match a prefix of \<open>s\<close>, as
  pairs of the captured texts and the unmatched rest, in the order in which a
  backtracking search tries them (a greedy operator the longest first, a lazy one
  the shortest first, a present optional group before an absent one). Go returns
  the match that such a search finds first.
\<close>

datatype cls = Space | Word | AnyChar | NotDQuote

fun inCls :: "cls \<Rightarrow> char \<Rightarrow> bool" where
  "inCls Space c = (c \<in> set [CHR 0x09, CHR 0x0A, CHR 0x0C, CHR 0x0D, CHR 0x20])"
| "inCls Word c = isWord c"
| "inCls AnyChar c = (c \<noteq> CHR 0x0A)"
| "inCls NotDQuote c = (c \<noteq> CHR 0x22)"

datatype rx =
    Lit string
  | Plus cls
  | Star cls
  | LazyPlus cls
  | Group rx
  | Opt rx
  | Cat rx rx
  | EndText

fun ngroups :: "rx \<Rightarrow> nat" where
  "ngroups (Group r) = Suc (ngroups r)"
| "ngroups (Opt r) = ngroups r"
| "ngroups (Cat a b) = ngroups a + ngroups b"
| "ngroups _ = 0"

definition run :: "cls \<Rightarrow> string \<Rightarrow> nat" where
  "run c s = length (takeWhile (inCls c) s)"

fun matches :: "rx \<Rightarrow> string \<Rightarrow> (string list \<times> string) list" where
  "matches (Lit l) s = (if HasPrefix s l then [([], drop (length l) s)] else [])"
| "matches (Plus c) s = map (\<lambda>k. ([], drop k s)) (rev [1..<Suc (run c s)])"
| "matches (Star c) s = map (\<lambda>k. ([], drop k s)) (rev [0..<Suc (run c s)])"
| "matches (LazyPlus c) s = map (\<lambda>k. ([], drop k s)) [1..<Suc (run c s)]"
| "matches (Group r) s =
     map (\<lambda>(caps, rest). (take (length s - length rest) s # caps, rest)) (matches r s)"
| "matches (Opt r) s = matches r s @ [(replicate (ngroups r) [], s)]"
| "matches (Cat a b) s =
     concat (map (\<lambda>(ca, ra). map (\<lambda>(cb, rb). (ca @ cb, rb)) (matches b ra)) (matches a s))"
| "matches EndText s = (if s = [] then [([], [])] else [])"

definition FindStringSubmatch :: "rx \<Rightarrow> string \<Rightarrow> string list" where
  \<comment> \<open>for a pattern that starts with \<open>^\<close>; no match is Go's nil slice, of length 0\<close>
  "FindStringSubmatch r s =
     (case matches r s of
        [] \<Rightarrow> []
      | (caps, rest) # _ \<Rightarrow> take (length s - length rest) s # caps)"

definition comment_rx :: rx where
  \<comment> \<open>\<open>(?:\s*//.*)?$\<close>\<close>
  "comment_rx = Cat (Opt (Cat (Star Space) (Cat (Lit ''//'') (Star AnyChar)))) EndText"

definition define_rx :: rx where
  \<comment> \<open>\<open>^#define\s+(\w+)\s+(.+?)(?:\s*//.*)?$\<close>\<close>
  "define_rx =
     Cat (Lit ''#define'') (Cat (Plus Space) (Cat (Group (Plus Word))
       (Cat (Plus Space) (Cat (Group (LazyPlus AnyChar)) comment_rx))))"

definition include_rx :: rx where
  \<comment> \<open>\<open>^#include\s+"([^"]+)"(?:\s*//.*)?$\<close>\<close>
  "include_rx =
     Cat (Lit ''#include'') (Cat (Plus Space) (Cat (Lit [CHR 0x22])
       (Cat (Group (Plus NotDQuote)) (Cat (Lit [CHR 0x22]) comment_rx))))"

definition ifdef_rx :: rx where
  \<comment> \<open>\<open>^#ifdef\s+(\w+)(?:\s*//.*)?$\<close>\<close>
  "ifdef_rx = Cat (Lit ''#ifdef'') (Cat (Plus Space) (Cat (Group (Plus Word)) comment_rx))"

definition ifndef_rx :: rx where
  \<comment> \<open>\<open>^#ifndef\s+(\w+)(?:\s*//.*)?$\<close>\<close>
  "ifndef_rx = Cat (Lit ''#ifndef'') (Cat (Plus Space) (Cat (Group (Plus Word)) comment_rx))"


subsection \<open>Replacing the whole-word occurrences of a name\<close>

text \<open>
  \<open>substituteVariables\<close> compiles \<open>\b\<close>, the quoted name, \<open>\b\<close>: the name as a literal
  between two word boundaries. A position is a word boundary when exactly one of
  the characters before and after it is a word character; \<open>prevw\<close> says whether the
  character before the current position is one.
\<close>

definition wordBoundary :: "bool \<Rightarrow> string \<Rightarrow> bool" where
  "wordBoundary prevw s = (prevw \<noteq> (case s of [] \<Rightarrow> False | c # _ \<Rightarrow> isWord c))"

definition matchHere :: "string \<Rightarrow> bool \<Rightarrow> string \<Rightarrow> bool" where
  "matchHere name prevw s =
     (wordBoundary prevw s \<and> HasPrefix s name \<and>
      wordBoundary (if name = [] then prevw else isWord (last name)) (drop (length name) s))"

function replaceAll :: "string \<Rightarrow> string \<Rightarrow> bool \<Rightarrow> string \<Rightarrow> string" where
  "replaceAll name rep prevw s =
     (if matchHere name prevw s \<and> name \<noteq> [] then
        rep @ replaceAll name rep (isWord (last name)) (drop (length name) s)
      else
        (if matchHere name prevw s then rep else []) @
        (case s of [] \<Rightarrow> [] | c # cs \<Rightarrow> c # replaceAll name rep (isWord c) cs))"
  by pat_completeness auto
termination
proof (relation "measure (\<lambda>(name, rep, prevw, s). length s)")
  fix name rep :: string and prevw :: bool and s :: string
  assume "matchHere name prevw s \<and> name \<noteq> []"
  then have "HasPrefix s name" and "name \<noteq> []"
    by (simp_all add: matchHere_def)
  then have "s \<noteq> []"
    by (auto simp: HasPrefix_def)
  with \<open>name \<noteq> []\<close>
  show "((name, rep, isWord (last name), drop (length name) s), (name, rep, prevw, s))
          \<in> measure (\<lambda>(name, rep, prevw, s). length s)"
    by simp
qed auto

text \<open>
  The replacement text of \<open>ReplaceAllString\<close> is a template: \<open>$$\<close> is a dollar sign,
  \<open>$name\<close> and \<open>${name}\<close> stand for a submatch. The pattern has no capture group, so
  only the name \<open>0\<close> stands for something, the matched text; every other name
  expands to nothing, and a \<open>$\<close> that no name follows stays.
\<close>

fun parseNum :: "nat \<Rightarrow> string \<Rightarrow> nat option" where
  "parseNum num [] = Some num"
| "parseNum num (c # cs) =
     (if \<not> isDigit c \<or> 100000000 \<le> num then None
      else parseNum (num * 10 + (of_char c - 48)) cs)"

definition extractName :: "string \<Rightarrow> (string \<times> nat option \<times> string) option" where
  \<comment> \<open>the name at the head of the template, its number if it is one, and the rest\<close>
  "extractName str =
     (if str = [] then None
      else
        let brace = (hd str = CHR ''{'');
            str' = (if brace then tl str else str);
            name = takeWhile isWord str';
            after = dropWhile isWord str'
        in if name = [] then None
           else if brace \<and> (after = [] \<or> hd after \<noteq> CHR ''}'') then None
           else Some (name,
                  (if hd name = CHR ''0'' \<and> 1 < length name then None else parseNum 0 name),
                  (if brace then tl after else after)))"

function expand :: "string \<Rightarrow> string \<Rightarrow> string" where
  "expand [] matched = []"
| "expand (c # template) matched =
     (if c \<noteq> CHR ''$'' then c # expand template matched
      else if template \<noteq> [] \<and> hd template = CHR ''$'' then CHR ''$'' # expand (tl template) matched
      else
        (case extractName template of
           None \<Rightarrow> CHR ''$'' # expand template matched
         | Some (name, num, rest) \<Rightarrow>
             (if num = Some 0 then matched else []) @ expand rest matched))"
  by pat_completeness auto
termination
proof (relation "measure (\<lambda>(template, matched). length template)")
  fix c :: char and template matched name rest :: string and num :: "nat option"
    and x2 :: "string \<times> nat option \<times> string" and y :: "nat option \<times> string"
  assume "extractName template = Some x2" and "(name, y) = x2" and "(num, rest) = y"
  then have e: "extractName template = Some (name, num, rest)"
    by simp
  have d: "length (dropWhile isWord xs) \<le> length xs" for xs :: string
    by (induction xs) auto
  from e have "rest = dropWhile isWord template \<or> rest = tl (dropWhile isWord (tl template)) \<or>
               rest = dropWhile isWord (tl template) \<or> rest = tl (dropWhile isWord template)"
    by (auto simp: extractName_def Let_def split: if_splits)
  moreover have "length (dropWhile isWord (tl template)) \<le> length template"
    using d [of "tl template"] by simp
  ultimately have "length rest \<le> length template"
    using d [of template] by auto
  then show "((rest, matched), (c # template, matched)) \<in> measure (\<lambda>(template, matched). length template)"
    by simp
qed auto

definition ReplaceAllString :: "string \<Rightarrow> string \<Rightarrow> string \<Rightarrow> string" where
  \<comment> \<open>\<open>regexp.MustCompile(`\b` + regexp.QuoteMeta(name) + `\b`).ReplaceAllString(src, repl)\<close>\<close>
  "ReplaceAllString name src repl = replaceAll name (expand repl name) False src"


section \<open>Paths\<close>

text \<open>
  \<open>filepath.IsAbs\<close>, \<open>filepath.Clean\<close>, \<open>filepath.Dir\<close> and \<open>filepath.Join\<close> of a Unix
  system, where the separator is the slash and there is no volume name.
\<close>

fun splitOn :: "char \<Rightarrow> string \<Rightarrow> string list" where
  "splitOn sep [] = [[]]"
| "splitOn sep (c # cs) =
     (if c = sep then [] # splitOn sep cs
      else (case splitOn sep cs of [] \<Rightarrow> [[c]] | e # es \<Rightarrow> (c # e) # es))"

fun joinWith :: "string \<Rightarrow> string list \<Rightarrow> string" where
  "joinWith sep [] = []"
| "joinWith sep [e] = e"
| "joinWith sep (e # es) = e @ sep @ joinWith sep es"

definition IsAbs :: "string \<Rightarrow> bool" where
  "IsAbs path = HasPrefix path ''/''"

definition cleanStep :: "bool \<Rightarrow> string list \<Rightarrow> string \<Rightarrow> string list" where
  \<comment> \<open>the elements kept so far, and the next element of the path\<close>
  "cleanStep rooted out e =
     (if e = [] \<or> e = ''.'' then out
      else if e = ''..'' then
        (if out \<noteq> [] \<and> last out \<noteq> ''..'' then butlast out
         else if rooted then out
         else out @ [e])
      else out @ [e])"

definition Clean :: "string \<Rightarrow> string" where
  "Clean path =
     (let rooted = IsAbs path;
          out = foldl (cleanStep rooted) [] (splitOn CHR ''/'' path);
          res = (if rooted then ''/'' else []) @ joinWith ''/'' out
      in if res = [] then ''.'' else res)"

definition Dir :: "string \<Rightarrow> string" where
  \<comment> \<open>the path up to and with its last separator, cleaned\<close>
  "Dir path = Clean (rev (dropWhile (\<lambda>c. c \<noteq> CHR ''/'') (rev path)))"

definition Join :: "string \<Rightarrow> string \<Rightarrow> string" where
  \<comment> \<open>\<open>filepath.Join\<close> of two elements: empty elements are ignored\<close>
  "Join a b =
     (if a \<noteq> [] then Clean (a @ ''/'' @ b)
      else if b \<noteq> [] then Clean b
      else [])"


section \<open>The preprocessor\<close>

record SourceLocation =
  FileName :: string
  LineNumber :: nat
  OriginalFile :: string
  OriginalLine :: nat

record Define =
  Name :: string
  Value :: string

record ConditionalBlock =
  Type :: string
  Variable :: string
  StartLine :: nat
  Active :: bool

record ConditionalStack =
  blocks :: "ConditionalBlock list"

text \<open>
  The table of defines is a Go map (the field \<open>defines\<close>, written \<open>defines_map\<close>
  here, the plain name being reserved). It is modelled as an association list
  with distinct keys, and the order in which a \<open>range\<close> statement visits it,
  which Go leaves open and varies from one loop to the next, is a parameter:
  \<open>rangeOrder\<close> visits the keys named by \<open>prio\<close> first, in that order, and the others
  after them. The field \<open>ranges\<close> is not a field of the Go struct: it counts the
  \<open>range\<close> loops run so far, and the runtime's choice for the \<open>n\<close>-th loop is
  \<open>ord n\<close>, so that every sequence of choices is some \<open>ord\<close>. The pointer
  \<open>conditionalStack\<close> is nil (\<open>None\<close>) until \<open>initConditionals\<close> allocates the stack.
  Line numbers are Go ints that count the lines read; they are natural numbers
  here.
\<close>

record Preprocessor =
  defines_map :: "(string \<times> Define) list"
  locations :: "SourceLocation list"
  conditionalStack :: "ConditionalStack option"
  ranges :: nat

datatype error =
    OpenFailed string                \<comment> \<open>failed to open file F\<close>
  | ReadFailed string                \<comment> \<open>error reading file F\<close>
  | InvalidDefine string nat         \<comment> \<open>F:L: invalid #define syntax\<close>
  | InvalidInclude string nat        \<comment> \<open>F:L: invalid #include syntax\<close>
  | IncludeFailed string nat error   \<comment> \<open>F:L: error including file: E\<close>
  | InvalidIfdef string nat          \<comment> \<open>F:L: invalid #ifdef syntax\<close>
  | InvalidIfndef string nat         \<comment> \<open>F:L: invalid #ifndef syntax\<close>
  | EndWithoutIf string nat          \<comment> \<open>F:L: #end without matching #ifdef or #ifndef\<close>
  | EndFailed string nat             \<comment> \<open>F:L: error processing #end: no conditional blocks to pop\<close>
  | Unclosed string                  \<comment> \<open>F: unclosed conditional blocks (missing #end)\<close>

text \<open>
  A call returns its results and the preprocessor as it left it, or fails with an
  error value, or panics (the Go runtime aborts the program), or, for the
  recursion through included files, does not come back within the given depth.
\<close>

datatype 'a outcome = Returned 'a | Failed error | Panicked | OutOfFuel

type_synonym emitted = "string list \<times> SourceLocation list"

type_synonym files = "string \<Rightarrow> (string list \<times> bool) option"

definition NewPreprocessor :: Preprocessor where
  "NewPreprocessor =
     \<lparr>defines_map = [], locations = [], conditionalStack = None, ranges = 0\<rparr>"

definition SetDefine :: "Preprocessor \<Rightarrow> string \<Rightarrow> string \<Rightarrow> Preprocessor" where
  "SetDefine p name v =
     p\<lparr>defines_map := AList.update name \<lparr>Name = name, Value = v\<rparr> (defines_map p)\<rparr>"

definition HasDefine :: "Preprocessor \<Rightarrow> string \<Rightarrow> bool" where
  "HasDefine p name = (map_of (defines_map p) name \<noteq> None)"

definition rangeOrder :: "string list \<Rightarrow> (string \<times> Define) list \<Rightarrow> (string \<times> Define) list" where
  "rangeOrder prio tab =
     concat (map (\<lambda>k. case map_of tab k of None \<Rightarrow> [] | Some d \<Rightarrow> [(k, d)]) (remdups prio)) @
     filter (\<lambda>(k, d). k \<notin> set prio) tab"

definition substituteVariables :: "string list \<Rightarrow> Preprocessor \<Rightarrow> string \<Rightarrow> string" where
  \<comment> \<open>\<open>order\<close>: the runtime's choice for this \<open>range\<close> over the defines\<close>
  "substituteVariables order p line =
     foldl (\<lambda>result (name, d). ReplaceAllString name result (Value d)) line
       (rangeOrder order (defines_map p))"

definition slice :: "string \<Rightarrow> int \<Rightarrow> int \<Rightarrow> string option" where
  \<comment> \<open>\<open>s[lo:hi]\<close>; \<open>None\<close> is the panic "slice bounds out of range"\<close>
  "slice s lo hi =
     (if 0 \<le> lo \<and> lo \<le> hi \<and> hi \<le> int (length s)
      then Some (take (nat (hi - lo)) (drop (nat lo) s)) else None)"

definition processDefine ::
  "Preprocessor \<Rightarrow> string \<Rightarrow> string \<Rightarrow> nat \<Rightarrow> (emitted \<times> Preprocessor) outcome" where
  "processDefine p line filename lineNumber =
     (let ms = FindStringSubmatch define_rx line in
      if length ms < 3 then Failed (InvalidDefine filename lineNumber)
      else
        let name = ms ! 1; v = TrimSpace (ms ! 2) in
        if (HasPrefix v [CHR 0x22] \<and> HasSuffix v [CHR 0x22]) \<or>
           (HasPrefix v [CHR 0x27] \<and> HasSuffix v [CHR 0x27])
        then
          (case slice v 1 (int (length v) - 1) of
             None \<Rightarrow> Panicked
           | Some v' \<Rightarrow> Returned (([], []), SetDefine p name v'))
        else Returned (([], []), SetDefine p name v))"

definition processInclude ::
  "(Preprocessor \<Rightarrow> string \<Rightarrow> (emitted \<times> Preprocessor) outcome) \<Rightarrow>
   Preprocessor \<Rightarrow> string \<Rightarrow> string \<Rightarrow> nat \<Rightarrow> (emitted \<times> Preprocessor) outcome" where
  \<comment> \<open>\<open>ProcessFile\<close>: the recursive call, on the preprocessor and the path\<close>
  "processInclude ProcessFile p line filename lineNumber =
     (let ms = FindStringSubmatch include_rx line in
      if length ms < 2 then Failed (InvalidInclude filename lineNumber)
      else
        let includeFile = ms ! 1;
            includeFile = (if \<not> IsAbs includeFile then Join (Dir filename) includeFile
                           else includeFile)
        in case ProcessFile p includeFile of
             Failed err \<Rightarrow> Failed (IncludeFailed filename lineNumber err)
           | other \<Rightarrow> other)"

definition processLine ::
  "(Preprocessor \<Rightarrow> string \<Rightarrow> (emitted \<times> Preprocessor) outcome) \<Rightarrow> (nat \<Rightarrow> string list) \<Rightarrow>
   Preprocessor \<Rightarrow> string \<Rightarrow> string \<Rightarrow> nat \<Rightarrow> (emitted \<times> Preprocessor) outcome" where
  "processLine ProcessFile ord p line filename lineNumber =
     (let trimmed = TrimSpace line in
      if HasPrefix trimmed ''#define '' then processDefine p trimmed filename lineNumber
      else if HasPrefix trimmed ''#include '' then
        processInclude ProcessFile p trimmed filename lineNumber
      else
        let processedLine = substituteVariables (ord (ranges p)) p line;
            location = \<lparr>FileName = filename, LineNumber = lineNumber,
                        OriginalFile = filename, OriginalLine = lineNumber\<rparr>
        in Returned (([processedLine], [location]), p\<lparr>ranges := Suc (ranges p)\<rparr>))"


subsection \<open>Conditionals\<close>

definition NewConditionalStack :: ConditionalStack where
  "NewConditionalStack = \<lparr>blocks = []\<rparr>"

definition Push :: "ConditionalStack \<Rightarrow> ConditionalBlock \<Rightarrow> ConditionalStack" where
  "Push cs block = cs\<lparr>blocks := blocks cs @ [block]\<rparr>"

definition Pop :: "ConditionalStack \<Rightarrow> (ConditionalBlock \<times> ConditionalStack) option" where
  \<comment> \<open>\<open>None\<close> is the error "no conditional blocks to pop"\<close>
  "Pop cs =
     (if length (blocks cs) = 0 then None
      else Some (last (blocks cs), cs\<lparr>blocks := butlast (blocks cs)\<rparr>))"

definition IsEmpty :: "ConditionalStack \<Rightarrow> bool" where
  "IsEmpty cs = (length (blocks cs) = 0)"

fun allActive :: "ConditionalBlock list \<Rightarrow> bool" where
  "allActive [] = True"
| "allActive (block # rest) = (if \<not> Active block then False else allActive rest)"

definition ShouldInclude :: "ConditionalStack \<Rightarrow> bool" where
  "ShouldInclude cs = allActive (blocks cs)"

definition Depth :: "ConditionalStack \<Rightarrow> nat" where
  "Depth cs = length (blocks cs)"

definition initConditionals :: "Preprocessor \<Rightarrow> Preprocessor" where
  "initConditionals p =
     (case conditionalStack p of
        None \<Rightarrow> p\<lparr>conditionalStack := Some NewConditionalStack\<rparr>
      | Some cs \<Rightarrow> p)"

definition stack :: "Preprocessor \<Rightarrow> ConditionalStack" where
  \<comment> \<open>\<open>*p.conditionalStack\<close>, read after \<open>initConditionals\<close> only\<close>
  "stack p = (case conditionalStack p of None \<Rightarrow> NewConditionalStack | Some cs \<Rightarrow> cs)"

definition processIfdef ::
  "Preprocessor \<Rightarrow> string \<Rightarrow> string \<Rightarrow> nat \<Rightarrow> (emitted \<times> Preprocessor) outcome" where
  "processIfdef p0 line filename lineNumber =
     (let p = initConditionals p0;
          ms = FindStringSubmatch ifdef_rx line
      in if length ms < 2 then Failed (InvalidIfdef filename lineNumber)
         else
           let variableName = ms ! 1;
               active = HasDefine p variableName;
               active = (if \<not> ShouldInclude (stack p) then False else active);
               block = \<lparr>Type = ''ifdef'', Variable = variableName,
                         StartLine = lineNumber, Active = active\<rparr>
           in Returned (([], []), p\<lparr>conditionalStack := Some (Push (stack p) block)\<rparr>))"

definition processIfndef ::
  "Preprocessor \<Rightarrow> string \<Rightarrow> string \<Rightarrow> nat \<Rightarrow> (emitted \<times> Preprocessor) outcome" where
  "processIfndef p0 line filename lineNumber =
     (let p = initConditionals p0;
          ms = FindStringSubmatch ifndef_rx line
      in if length ms < 2 then Failed (InvalidIfndef filename lineNumber)
         else
           let variableName = ms ! 1;
               active = (\<not> HasDefine p variableName);
               active = (if \<not> ShouldInclude (stack p) then False else active);
               block = \<lparr>Type = ''ifndef'', Variable = variableName,
                         StartLine = lineNumber, Active = active\<rparr>
           in Returned (([], []), p\<lparr>conditionalStack := Some (Push (stack p) block)\<rparr>))"

definition processEnd ::
  "Preprocessor \<Rightarrow> string \<Rightarrow> string \<Rightarrow> nat \<Rightarrow> (emitted \<times> Preprocessor) outcome" where
  "processEnd p0 line filename lineNumber =
     (let p = initConditionals p0 in
      if IsEmpty (stack p) then Failed (EndWithoutIf filename lineNumber)
      else
        (case Pop (stack p) of
           None \<Rightarrow> Failed (EndFailed filename lineNumber)
         | Some (block, cs) \<Rightarrow> Returned (([], []), p\<lparr>conditionalStack := Some cs\<rparr>)))"

definition processLineWithConditionals ::
  "(Preprocessor \<Rightarrow> string \<Rightarrow> (emitted \<times> Preprocessor) outcome) \<Rightarrow> (nat \<Rightarrow> string list) \<Rightarrow>
   Preprocessor \<Rightarrow> string \<Rightarrow> string \<Rightarrow> nat \<Rightarrow> (emitted \<times> Preprocessor) outcome" where
  "processLineWithConditionals ProcessFile ord p0 line filename lineNumber =
     (let p = initConditionals p0;
          trimmed = TrimSpace line
      in if HasPrefix trimmed ''#ifdef '' then processIfdef p trimmed filename lineNumber
         else if HasPrefix trimmed ''#ifndef '' then processIfndef p trimmed filename lineNumber
         else if trimmed = ''#end'' then processEnd p trimmed filename lineNumber
         else if \<not> ShouldInclude (stack p) then Returned (([], []), p)
         else processLine ProcessFile ord p line filename lineNumber)"

definition ValidateConditionals :: "Preprocessor \<Rightarrow> string \<Rightarrow> error option \<times> Preprocessor" where
  "ValidateConditionals p0 filename =
     (let p = initConditionals p0 in
      if \<not> IsEmpty (stack p) then (Some (Unclosed filename), p) else (None, p))"


subsection \<open>Reading a script\<close>

text \<open>
  \<open>processLines\<close> is the loop of \<open>processReader\<close> over the lines the scanner
  delivers; \<open>lineNumber\<close> is the counter before its increment. A file of the file
  system is the lines the scanner delivers from it and whether the scanner ends
  with an error; a path that cannot be opened has no file.
\<close>

fun processLines ::
  "(Preprocessor \<Rightarrow> string \<Rightarrow> (emitted \<times> Preprocessor) outcome) \<Rightarrow> (nat \<Rightarrow> string list) \<Rightarrow>
   Preprocessor \<Rightarrow> string \<Rightarrow> nat \<Rightarrow> string list \<Rightarrow> emitted \<Rightarrow>
   (emitted \<times> Preprocessor) outcome" where
  "processLines ProcessFile ord p filename lineNumber [] acc = Returned (acc, p)"
| "processLines ProcessFile ord p filename lineNumber (line # rest) acc =
     (case processLineWithConditionals ProcessFile ord p line filename (lineNumber + 1) of
        Returned ((processedLines, lineLocations), p') \<Rightarrow>
          processLines ProcessFile ord p' filename (lineNumber + 1) rest
            (fst acc @ processedLines, snd acc @ lineLocations)
      | Failed err \<Rightarrow> Failed err
      | Panicked \<Rightarrow> Panicked
      | OutOfFuel \<Rightarrow> OutOfFuel)"

definition processReader ::
  "(Preprocessor \<Rightarrow> string \<Rightarrow> (emitted \<times> Preprocessor) outcome) \<Rightarrow> (nat \<Rightarrow> string list) \<Rightarrow>
   Preprocessor \<Rightarrow> string list \<times> bool \<Rightarrow> string \<Rightarrow> (emitted \<times> Preprocessor) outcome" where
  "processReader ProcessFile ord p reader filename =
     (case processLines ProcessFile ord p filename 0 (fst reader) ([], []) of
        Returned (acc, p') \<Rightarrow>
          if snd reader then Failed (ReadFailed filename)
          else
            (case ValidateConditionals p' filename of
               (Some err, p'') \<Rightarrow> Failed err
             | (None, p'') \<Rightarrow> Returned (acc, p''))
      | other \<Rightarrow> other)"

primrec ProcessFile ::
  "nat \<Rightarrow> files \<Rightarrow> (nat \<Rightarrow> string list) \<Rightarrow> Preprocessor \<Rightarrow> string \<Rightarrow>
   (emitted \<times> Preprocessor) outcome" where
  "ProcessFile 0 fs ord p filename = OutOfFuel"
| "ProcessFile (Suc depth) fs ord p filename =
     (case fs filename of
        None \<Rightarrow> Failed (OpenFailed filename)
      | Some reader \<Rightarrow> processReader (ProcessFile depth fs ord) ord p reader filename)"

definition ProcessReader ::
  "nat \<Rightarrow> files \<Rightarrow> (nat \<Rightarrow> string list) \<Rightarrow> Preprocessor \<Rightarrow> string list \<times> bool \<Rightarrow> string \<Rightarrow>
   (emitted \<times> Preprocessor) outcome" where
  "ProcessReader depth fs ord p reader filename =
     processReader (ProcessFile depth fs ord) ord p reader filename"


section \<open>The statement assembler\<close>

text \<open>
  The fields \<open>StartLine\<close>, \<open>EndLine\<close> and \<open>FileName\<close> of a \<open>Statement\<close> carry the prefix
  \<open>Stmt\<close> here, since a \<open>ConditionalBlock\<close> and a \<open>SourceLocation\<close> have fields of
  the same names.
\<close>

record Statement =
  SQL :: string
  StmtStartLine :: nat
  StmtEndLine :: nat
  StmtFileName :: string
  Location :: SourceLocation

definition schemaCommands :: "string list" where
  "schemaCommands =
     [''@schema-all'', ''@schema-tables'', ''@schema-views'', ''@schema-procedures'',
      ''@schema-functions'', ''@drivers'']"

fun hasPrefixOf :: "string \<Rightarrow> string list \<Rightarrow> bool" where
  "hasPrefixOf trimmed [] = False"
| "hasPrefixOf trimmed (cmd # cmds) = (if HasPrefix trimmed cmd then True else hasPrefixOf trimmed cmds)"

definition IsSchemaCommand :: "string \<Rightarrow> bool" where
  "IsSchemaCommand line = hasPrefixOf (TrimSpace line) schemaCommands"

definition ParseSchemaCommand :: "string \<Rightarrow> string \<times> string" where
  "ParseSchemaCommand line =
     (let parts = Fields (TrimSpace line) in
      if length parts = 0 then ([], [])
      else (parts ! 0, if 1 < length parts then Trim (parts ! 1) [CHR 0x22, CHR 0x27] else []))"

definition zeroLocation :: SourceLocation where
  "zeroLocation = \<lparr>FileName = [], LineNumber = 0, OriginalFile = [], OriginalLine = 0\<rparr>"

definition isDelimiter :: "string \<Rightarrow> bool" where
  "isDelimiter line =
     (HasPrefix (TrimSpace (ToLower line)) ''go '' \<or> TrimSpace (ToLower line) = ''go'')"

text \<open>
  The loop of \<open>parseStatementsFromLines\<close>: \<open>i\<close> is the index of the line, and the
  state is the statements so far, the builder \<open>currentStatement\<close>, \<open>startLine\<close> and
  \<open>startLocation\<close>.
\<close>

fun parseLoop ::
  "SourceLocation list \<Rightarrow> nat \<Rightarrow> string list \<Rightarrow>
   Statement list \<times> string \<times> nat \<times> SourceLocation \<Rightarrow>
   Statement list \<times> string \<times> nat \<times> SourceLocation" where
  "parseLoop locs i [] st = st"
| "parseLoop locs i (line # rest) (statements, currentStatement, startLine, startLocation) =
     (if IsSchemaCommand line then
        let flushed = (0 < length currentStatement);
            statements = (if flushed then
                statements @ [\<lparr>SQL = TrimSpace currentStatement, StmtStartLine = startLine,
                                StmtEndLine = i, StmtFileName = FileName startLocation,
                                Location = startLocation\<rparr>]
              else statements);
            location = (if i < length locs then locs ! i else startLocation)
        in parseLoop locs (i + 1) rest
             (statements @ [\<lparr>SQL = TrimSpace line, StmtStartLine = i + 1, StmtEndLine = i + 1,
                              StmtFileName = FileName location, Location = location\<rparr>],
              (if flushed then [] else currentStatement), startLine, startLocation)
      else if isDelimiter line then
        (if 0 < length currentStatement then
           parseLoop locs (i + 1) rest
             (statements @ [\<lparr>SQL = TrimSpace currentStatement, StmtStartLine = startLine,
                              StmtEndLine = i, StmtFileName = FileName startLocation,
                              Location = startLocation\<rparr>],
              [], startLine, startLocation)
         else parseLoop locs (i + 1) rest (statements, currentStatement, startLine, startLocation))
      else
        let fresh = (length currentStatement = 0);
            startLine = (if fresh then i + 1 else startLine);
            startLocation = (if fresh \<and> i < length locs then locs ! i else startLocation)
        in parseLoop locs (i + 1) rest
             (statements, currentStatement @ line @ [CHR 0x0A], startLine, startLocation))"

definition parseStatementsFromLines :: "string list \<Rightarrow> SourceLocation list \<Rightarrow> Statement list" where
  "parseStatementsFromLines lines locs =
     (case parseLoop locs 0 lines ([], [], 0, zeroLocation) of
        (statements, currentStatement, startLine, startLocation) \<Rightarrow>
          if 0 < length currentStatement then
            statements @ [\<lparr>SQL = TrimSpace currentStatement, StmtStartLine = startLine,
                            StmtEndLine = length lines, StmtFileName = FileName startLocation,
                            Location = startLocation\<rparr>]
          else statements)"

text \<open>
  \<open>executeStatements\<close> hands statements to two collaborators, the introspector and
  the executor, and the executor's result to the formatter. The model records the
  calls it makes; whether a call reports an error is a parameter, which may depend
  on all the calls made so far (the last one being the call in question).
\<close>

datatype call =
    SchemaCall string string       \<comment> \<open>\<open>ProcessSchemaCommand(command, filter)\<close>\<close>
  | ExecuteCall string nat string  \<comment> \<open>\<open>Execute(sql, line, file)\<close>\<close>

record collaborators =
  schemaFails :: "call list \<Rightarrow> bool"
  executeFails :: "call list \<Rightarrow> bool"
  formatFails :: "call list \<Rightarrow> bool"

datatype execError = SchemaCommandError | FormatError | ExecutionStopped

fun executeLoop ::
  "collaborators \<Rightarrow> bool \<Rightarrow> Statement list \<Rightarrow> call list \<Rightarrow> call list \<times> execError option" where
  "executeLoop c endOnError [] trace = (trace, None)"
| "executeLoop c endOnError (stmt # rest) trace =
     (if TrimSpace (SQL stmt) = [] then executeLoop c endOnError rest trace
      else if IsSchemaCommand (SQL stmt) then
        (case ParseSchemaCommand (SQL stmt) of
           (command, filterArg) \<Rightarrow>
             let trace = trace @ [SchemaCall command filterArg] in
             if schemaFails c trace \<and> endOnError then (trace, Some SchemaCommandError)
             else executeLoop c endOnError rest trace)
      else
        let trace = trace @ [ExecuteCall (SQL stmt) (OriginalLine (Location stmt))
                               (OriginalFile (Location stmt))]
        in if formatFails c trace then (trace, Some FormatError)
           else if executeFails c trace \<and> endOnError then (trace, Some ExecutionStopped)
           else executeLoop c endOnError rest trace)"

definition executeStatements ::
  "collaborators \<Rightarrow> bool \<Rightarrow> Statement list \<Rightarrow> call list \<times> execError option" where
  "executeStatements c endOnError statements = executeLoop c endOnError statements []"


section \<open>Notions of the specification\<close>

subsection \<open>Whole-word occurrences\<close>

text \<open>
  A name is an identifier when it is a non-empty run of word characters. It occurs
  at position \<open>i\<close> of a line when the line reads the name from there on; the
  occurrence is inside a longer identifier when the character just before it or
  just after it is a word character.
\<close>

definition isIdentifier :: "string \<Rightarrow> bool" where
  "isIdentifier name = (name \<noteq> [] \<and> list_all isWord name)"

definition occursAt :: "string \<Rightarrow> string \<Rightarrow> nat \<Rightarrow> bool" where
  "occursAt name line i = (take (length name) (drop i line) = name)"

definition insideIdentifier :: "string \<Rightarrow> string \<Rightarrow> nat \<Rightarrow> bool" where
  "insideIdentifier name line i =
     ((0 < i \<and> isWord (line ! (i - 1))) \<or>
      (i + length name < length line \<and> isWord (line ! (i + length name))))"

definition onlyInsideIdentifiers :: "string \<Rightarrow> string \<Rightarrow> bool" where
  "onlyInsideIdentifiers name line =
     list_all (\<lambda>i. occursAt name line i \<longrightarrow> insideIdentifier name line i)
       [0..<Suc (length line)]"



subsection \<open>Origins\<close>

text \<open>
  The origin of the line \<open>lineNumber\<close> of the file \<open>filename\<close>; a line is an inclusion
  directive when, trimmed, it starts with \<open>#include\<close> and a space, and
  \<open>includeTarget\<close> is the path that a well-formed directive in \<open>filename\<close> opens.
\<close>

definition lineOrigin :: "string \<Rightarrow> nat \<Rightarrow> SourceLocation" where
  "lineOrigin filename lineNumber =
     \<lparr>FileName = filename, LineNumber = lineNumber,
      OriginalFile = filename, OriginalLine = lineNumber\<rparr>"






subsection \<open>The value of a definition directive\<close>





subsection \<open>Plain files and unclosed conditionals\<close>








subsection \<open>Calls with content\<close>

text \<open>A call has content when its statement text has a character that is not white space.\<close>

fun callHasContent :: "call \<Rightarrow> bool" where
  "callHasContent (ExecuteCall sql line file) = (TrimSpace sql \<noteq> [])"
| "callHasContent (SchemaCall command filterArg) = (TrimSpace command \<noteq> [])"


section \<open>Auxiliary notions of the proofs\<close>






section \<open>Example scripts\<close>

definition noFiles :: files where
  "noFiles = (\<lambda>path. None)"

definition anyOrder :: "nat \<Rightarrow> string list" where
  \<comment> \<open>no preference: every \<open>range\<close> visits the table as it is stored\<close>
  "anyOrder = (\<lambda>n. [])"

definition chainScript :: files where
  \<comment> \<open>the value of one define names another define\<close>
  "chainScript =
     (\<lambda>path. if path = ''main.sql''
              then Some ([''#define A B'', ''#define B C'', ''A''], False) else None)"






definition quiet :: collaborators where
  \<comment> \<open>collaborators that never report an error\<close>
  "quiet = \<lparr>schemaFails = (\<lambda>trace. False), executeFails = (\<lambda>trace. False),
            formatFails = (\<lambda>trace. False)\<rparr>"

definition blankBatch :: "string list" where
  \<comment> \<open>the lines of a script of six lines, which starts with two blank lines\<close>
  "blankBatch = ['''', ''  '', ''go'', ''SELECT 1;'', ''go'', ''@drivers'']"

definition blankBatchOrigins :: "SourceLocation list" where
  "blankBatchOrigins = map (lineOrigin ''main.sql'') [1..<7]"


section \<open>The order of a range\<close>

text \<open>
  On a table with distinct keys, which is what \<open>SetDefine\<close> builds, \<open>rangeOrder\<close>
  visits every entry once, and every order of the entries is the order of some
  parameter: the parameter stands for all the orders the runtime may choose.
\<close>

lemma rangeOrder_set:
  assumes "distinct (map fst tab)"
  shows "set (rangeOrder prio tab) = set tab"
proof -
  have "(k, d) \<in> set tab \<longleftrightarrow> map_of tab k = Some d" for k d
    using assms by (auto dest: map_of_SomeD intro: map_of_is_SomeI)
  then show ?thesis
    by (auto simp: rangeOrder_def split: option.splits)
qed

lemma rangeOrder_distinct:
  assumes "distinct (map fst tab)"
  shows "distinct (map fst (rangeOrder prio tab))"
proof -
  let ?f = "\<lambda>k. case map_of tab k of None \<Rightarrow> [] | Some d \<Rightarrow> [(k, d)]"
  have 1: "distinct (map fst (concat (map ?f ks)))" if "distinct ks" for ks
    using that
  proof (induction ks)
    case Nil
    show ?case by simp
  next
    case (Cons k ks)
    have "fst ` set (concat (map ?f ks)) \<subseteq> set ks"
      by (auto split: option.splits)
    with Cons show ?case
      by (auto split: option.splits)
  qed
  have 2: "distinct (map fst (filter (\<lambda>(k, d). k \<notin> set prio) tab))"
    using assms by (simp add: distinct_map_filter)
  have 3: "fst ` set (concat (map ?f (remdups prio))) \<subseteq> set prio"
    by (auto split: option.splits)
  have 4: "fst ` set (filter (\<lambda>(k, d). k \<notin> set prio) tab) \<inter> set prio = {}"
    by auto
  from 1 [of "remdups prio"] 2 3 4 show ?thesis
    unfolding rangeOrder_def by (simp add: image_Un) blast
qed

lemma rangeOrder_any:
  assumes "distinct (map fst tab)" and "distinct (map fst xs)" and "set xs = set tab"
  shows "rangeOrder (map fst xs) tab = xs"
proof -
  let ?f = "\<lambda>k. case map_of tab k of None \<Rightarrow> [] | Some d \<Rightarrow> [(k, d)]"
  have m: "map_of tab k = Some d" if "(k, d) \<in> set xs" for k d
    using that assms(1,3) by (auto intro: map_of_is_SomeI)
  have 1: "filter (\<lambda>(k, d). k \<notin> set (map fst xs)) tab = []"
    using assms(3) by (auto simp: filter_empty_conv intro: rev_image_eqI)
  have 2: "remdups (map fst xs) = map fst xs"
    using assms(2) by (simp add: distinct_remdups_id)
  have "concat (map ?f (map fst ys)) = ys" if "set ys \<subseteq> set xs" for ys
    using that by (induction ys) (auto simp: m)
  then have 3: "concat (map ?f (map fst xs)) = xs"
    by simp
  show ?thesis
    unfolding rangeOrder_def 1 2 3 by simp
qed

lemma SetDefine_distinct:
  "distinct (map fst (defines_map p)) \<Longrightarrow> distinct (map fst (defines_map (SetDefine p name v)))"
  by (simp add: SetDefine_def distinct_update)


section \<open>Conditional nesting\<close>


lemma stack_init [simp]: "stack (initConditionals p) = stack p"
  by (simp add: stack_def initConditionals_def NewConditionalStack_def split: option.splits)

lemma stack_update [simp]: "stack (p\<lparr>conditionalStack := Some cs\<rparr>) = cs"
  by (simp add: stack_def)

lemma init_init [simp]: "initConditionals (initConditionals p) = initConditionals p"
  by (simp add: initConditionals_def split: option.splits)

lemma HasDefine_init [simp]: "HasDefine (initConditionals p) v = HasDefine p v"
  by (simp add: HasDefine_def initConditionals_def split: option.splits)

lemma HasPrefix_iff: "HasPrefix s pre = (\<exists>r. s = pre @ r)"
  unfolding HasPrefix_def
  by (metis append_eq_conv_conj append_take_drop_id)










section \<open>Malformed directives\<close>

text \<open>
  Claim C6. A conditional-open directive with a malformed name is to fail with a
  directive-syntax error. \<open>processIfdef\<close> has that error, but
  \<open>processLineWithConditionals\<close> sends it only the trimmed lines that start with
  \<open>#ifdef\<close> and a space: the line \<open>#ifdef\<close> with no name is not recognised as a
  directive, and with no frame open it is emitted as a line of content.
\<close>

theorem ifdef_without_name_is_emitted:
  "processLineWithConditionals (ProcessFile 0 noFiles anyOrder) anyOrder NewPreprocessor
     ''#ifdef'' ''main.sql'' 3 =
   Returned (([''#ifdef''],
              [\<lparr>FileName = ''main.sql'', LineNumber = 3,
                OriginalFile = ''main.sql'', OriginalLine = 3\<rparr>]),
             \<lparr>defines_map = [], locations = [],
              conditionalStack = Some \<lparr>blocks = []\<rparr>, ranges = 1\<rparr>)"
  by code_simp

text \<open>
  Claim C10. \<open>processDefine\<close> is to return a define or a directive-syntax error for
  every line. When the value is a single quote character the test for a quoted
  value succeeds, the slice \<open>value[1 : len(value)-1]\<close> is \<open>value[1:0]\<close>, and the
  call panics.
\<close>

theorem processDefine_panics_on_lone_quote:
  "processDefine NewPreprocessor ''#define NAME \"'' ''main.sql'' 1 = Panicked"
  by code_simp


section \<open>The order of the defines\<close>

text \<open>
  Claim C3. Two runs on the same script are to give the same lines. The value of
  \<open>A\<close> names \<open>B\<close>: a run whose \<open>range\<close> visits \<open>A\<close> before \<open>B\<close> emits \<open>C\<close>, and a run
  that visits \<open>B\<close> first emits \<open>B\<close>.
\<close>

theorem expansion_depends_on_map_order:
  "(case ProcessFile 1 chainScript (\<lambda>n. [''A'', ''B'']) NewPreprocessor ''main.sql'' of
      Returned ((out, locs), p) \<Rightarrow> out | other \<Rightarrow> []) = [''C''] \<and>
   (case ProcessFile 1 chainScript (\<lambda>n. [''B'', ''A'']) NewPreprocessor ''main.sql'' of
      Returned ((out, locs), p) \<Rightarrow> out | other \<Rightarrow> []) = [''B'']"
  by code_simp


section \<open>Whole-token substitution\<close>

lemma no_match_inside:
  assumes id: "isIdentifier name" and only: "onlyInsideIdentifiers name (pre @ s)"
    and prev: "prevw = (pre \<noteq> [] \<and> isWord (last pre))"
  shows "\<not> matchHere name prevw s"
proof
  assume m: "matchHere name prevw s"
  from id have ne: "name \<noteq> []" and w: "\<forall>c\<in>set name. isWord c"
    by (simp_all add: isIdentifier_def list_all_iff)
  from m obtain r where s: "s = name @ r"
    by (auto simp: matchHere_def HasPrefix_iff)
  from ne obtain c cs where name: "name = c # cs"
    by (cases name) auto
  from w ne have lw: "isWord (last name)" and hw: "isWord (hd name)"
    by auto
  from m s name hw have p: "\<not> prevw"
    by (auto simp: matchHere_def wordBoundary_def)
  from m s ne lw have a: "r = [] \<or> \<not> isWord (hd r)"
    by (auto simp: matchHere_def wordBoundary_def split: list.splits)
  have occ: "occursAt name (pre @ s) (length pre)"
    by (simp add: occursAt_def s)
  have "length pre \<in> set [0..<Suc (length (pre @ s))]"
    by simp
  with only occ have "insideIdentifier name (pre @ s) (length pre)"
    unfolding onlyInsideIdentifiers_def list_all_iff by blast
  then show False
  proof (unfold insideIdentifier_def, elim disjE conjE)
    assume "0 < length pre" and "isWord ((pre @ s) ! (length pre - 1))"
    then have "pre \<noteq> [] \<and> isWord (last pre)"
      by (auto simp: nth_append last_conv_nth)
    with p prev show False by simp
  next
    assume l: "length pre + length name < length (pre @ s)"
      and i: "isWord ((pre @ s) ! (length pre + length name))"
    from l s have "r \<noteq> []" by auto
    moreover from i s have "isWord (r ! 0)"
      by (simp add: nth_append)
    ultimately show False
      using a by (cases r) auto
  qed
qed

lemma replaceAll_unchanged:
  assumes "isIdentifier name"
  shows "onlyInsideIdentifiers name (pre @ s) \<Longrightarrow> prevw = (pre \<noteq> [] \<and> isWord (last pre)) \<Longrightarrow>
         replaceAll name rep prevw s = s"
proof (induction s arbitrary: pre prevw)
  case Nil
  from no_match_inside [OF assms Nil(1) Nil(2)] show ?case
    by (subst replaceAll.simps) simp
next
  case (Cons c cs)
  from no_match_inside [OF assms Cons.prems(1) Cons.prems(2)]
  have n: "\<not> matchHere name prevw (c # cs)" .
  have "replaceAll name rep (isWord c) cs = cs"
    by (rule Cons.IH [of "pre @ [c]"]) (use Cons.prems in simp_all)
  with n show ?case
    by (subst replaceAll.simps) simp
qed

lemma rangeOrder_subset: "set (rangeOrder prio tab) \<subseteq> set tab"
  by (auto simp: rangeOrder_def dest: map_of_SomeD sym split: option.splits)

lemma foldl_unchanged:
  "(\<forall>(name, d)\<in>set xs. ReplaceAllString name line (Value d) = line) \<Longrightarrow>
   foldl (\<lambda>result (name, d). ReplaceAllString name result (Value d)) line xs = line"
  by (induction xs) auto
text \<open>
  Claim C8. When every name of the table is an identifier that occurs in the line
  only inside longer identifiers (or not at all; occurrences are compared
  character by character, so a different case is no occurrence), substitution
  leaves the line as it is, whatever the order of the table.
\<close>

theorem whole_token_only:
  assumes "list_all (\<lambda>(name, d). isIdentifier name \<and> onlyInsideIdentifiers name line) (defines_map p)"
  shows "substituteVariables order p line = line"
proof -
  have "ReplaceAllString name line (Value d) = line"
    if "(name, d) \<in> set (rangeOrder order (defines_map p))" for name d
  proof -
    from that rangeOrder_subset have "(name, d) \<in> set (defines_map p)"
      by blast
    with assms have "isIdentifier name" and "onlyInsideIdentifiers name ([] @ line)"
      by (auto simp: list_all_iff)
    then show ?thesis
      unfolding ReplaceAllString_def by (rule replaceAll_unchanged) simp
  qed
  then show ?thesis
    unfolding substituteVariables_def by (intro foldl_unchanged) auto
qed
text \<open>The example of the specification: \<open>TRUE\<close> is defined as \<open>Y\<close>; \<open>TRUELY\<close> and \<open>true\<close> stay.\<close>

theorem whole_token_only_witness:
  "list_all (\<lambda>(name, d). isIdentifier name \<and> onlyInsideIdentifiers name ''TRUELY or true'')
     (defines_map (SetDefine NewPreprocessor ''TRUE'' ''Y'')) \<and>
   substituteVariables [] (SetDefine NewPreprocessor ''TRUE'' ''Y'') ''TRUELY or true'' = ''TRUELY or true''"
proof -
  have h: "list_all (\<lambda>(name, d). isIdentifier name \<and> onlyInsideIdentifiers name ''TRUELY or true'')
     (defines_map (SetDefine NewPreprocessor ''TRUE'' ''Y''))"
    by code_simp
  from whole_token_only [OF h] h show ?thesis
    by simp
qed

section \<open>One pass for each define\<close>








section \<open>Assembled statements\<close>

lemma dropWhile_fix: "xs = [] \<or> \<not> P (hd xs) \<Longrightarrow> dropWhile P xs = xs"
  by (cases xs) auto

lemma TrimSpace_ends:
  "TrimSpace s = [] \<or> (\<not> isSpace (hd (TrimSpace s)) \<and> \<not> isSpace (last (TrimSpace s)))"
proof -
  let ?u = "dropWhile isSpace s" and ?v = "dropWhile isSpace (rev (dropWhile isSpace s))"
  have t: "TrimSpace s = rev ?v"
    by (simp add: TrimSpace_def)
  show ?thesis
  proof (cases "?v = []")
    case True
    then show ?thesis by (simp add: t)
  next
    case False
    then have hv: "\<not> isSpace (hd ?v)"
      by (rule hd_dropWhile)
    have une: "?u \<noteq> []"
    proof
      assume "?u = []"
      then have "?v = []" by (metis dropWhile.simps(1) rev.simps(1))
      with False show False by blast
    qed
    then have hu: "\<not> isSpace (hd ?u)"
      by (rule hd_dropWhile)
    obtain w where w: "rev ?u = w @ ?v"
      by (metis takeWhile_dropWhile_id)
    then have "?u = rev ?v @ rev w"
      by (metis rev_append rev_rev_ident)
    with False have "hd (rev ?v) = hd ?u"
      by (metis hd_append2 rev_is_Nil_conv)
    moreover from False have "last (rev ?v) = hd ?v"
      by (simp add: last_rev)
    ultimately show ?thesis
      using hu hv by (simp add: t)
  qed
qed

lemma TrimSpace_idem: "TrimSpace (TrimSpace s) = TrimSpace s"
proof (cases "TrimSpace s = []")
  case True
  have "TrimSpace [] = []"
    by (simp add: TrimSpace_def)
  with True show ?thesis by simp
next
  case False
  with TrimSpace_ends [of s] have h: "\<not> isSpace (hd (TrimSpace s))" and l: "\<not> isSpace (last (TrimSpace s))"
    by auto
  from False h have 1: "dropWhile isSpace (TrimSpace s) = TrimSpace s"
    by (intro dropWhile_fix) simp
  from False l have 2: "dropWhile isSpace (rev (TrimSpace s)) = rev (TrimSpace s)"
    by (intro dropWhile_fix) (simp add: hd_rev)
  show ?thesis
    by (subst (1) TrimSpace_def) (simp only: 1 2 rev_rev_ident)
qed

lemma parseLoop_trimmed:
  "\<forall>s\<in>set sts. TrimSpace (SQL s) = SQL s \<Longrightarrow>
   \<forall>s\<in>set (fst (parseLoop locs i lines (sts, cur, sl, sloc))). TrimSpace (SQL s) = SQL s"
proof (induction lines arbitrary: i sts cur sl sloc)
  case Nil
  then show ?case by simp
next
  case (Cons line rest)
  show ?case
    apply (simp add: Let_def)
    apply (intro conjI impI Cons.IH)
    apply (simp_all add: TrimSpace_idem Cons.prems)
    done
qed

lemma parse_trimmed: "\<forall>s\<in>set (parseStatementsFromLines lines locs). TrimSpace (SQL s) = SQL s"
proof -
  obtain sts cur sl sloc where p: "parseLoop locs 0 lines ([], [], 0, zeroLocation) = (sts, cur, sl, sloc)"
    by (metis prod_cases4)
  have "\<forall>s\<in>set (fst (parseLoop locs 0 lines ([], [], 0, zeroLocation))). TrimSpace (SQL s) = SQL s"
    by (rule parseLoop_trimmed) simp
  then show ?thesis
    by (simp add: parseStatementsFromLines_def p TrimSpace_idem)
qed

lemma Fields_from_content:
  assumes "cur \<noteq> [] \<or> (\<exists>c\<in>set s. \<not> isSpace c)" and "\<forall>c\<in>set cur. \<not> isSpace c"
  shows "Fields_from cur s \<noteq> [] \<and> hd (Fields_from cur s) \<noteq> [] \<and>
         (\<forall>c\<in>set (hd (Fields_from cur s)). \<not> isSpace c)"
  using assms
proof (induction s arbitrary: cur)
  case Nil
  then show ?case by simp
next
  case (Cons a s)
  show ?case
  proof (cases "isSpace a")
    case sp: True
    show ?thesis
    proof (cases "cur = []")
      case True
      with Cons.prems sp have "\<exists>c\<in>set s. \<not> isSpace c"
        by auto
      then have "Fields_from [] s \<noteq> [] \<and> hd (Fields_from [] s) \<noteq> [] \<and>
         (\<forall>c\<in>set (hd (Fields_from [] s)). \<not> isSpace c)"
        by (intro Cons.IH) simp_all
      with sp True show ?thesis by simp
    next
      case False
      with sp Cons.prems show ?thesis by simp
    qed
  next
    case False
    have "Fields_from (cur @ [a]) s \<noteq> [] \<and> hd (Fields_from (cur @ [a]) s) \<noteq> [] \<and>
         (\<forall>c\<in>set (hd (Fields_from (cur @ [a]) s)). \<not> isSpace c)"
      by (intro Cons.IH) (use False Cons.prems in simp_all)
    with False show ?thesis by simp
  qed
qed

lemma dropWhile_none: "\<forall>c\<in>set xs. \<not> P c \<Longrightarrow> dropWhile P xs = xs"
  by (cases xs) auto

lemma no_space_TrimSpace: "\<forall>c\<in>set s. \<not> isSpace c \<Longrightarrow> TrimSpace s = s"
  by (simp add: TrimSpace_def dropWhile_none)

lemma command_content:
  assumes "TrimSpace sql \<noteq> []"
  shows "TrimSpace (fst (ParseSchemaCommand sql)) \<noteq> []"
proof -
  let ?parts = "Fields_from [] (TrimSpace sql)"
  from assms TrimSpace_ends [of sql] have "\<not> isSpace (hd (TrimSpace sql))"
    by auto
  with assms have "\<exists>c\<in>set (TrimSpace sql). \<not> isSpace c"
    by (metis hd_in_set)
  then have f: "?parts \<noteq> [] \<and> hd ?parts \<noteq> [] \<and> (\<forall>c\<in>set (hd ?parts). \<not> isSpace c)"
    by (intro Fields_from_content) auto
  then have t: "TrimSpace (hd ?parts) = hd ?parts"
    by (intro no_space_TrimSpace) blast
  from f have "fst (ParseSchemaCommand sql) = hd ?parts"
    by (simp add: ParseSchemaCommand_def Fields_def Let_def hd_conv_nth)
  with t f show ?thesis
    by simp
qed

lemma executeLoop_content:
  "\<forall>c\<in>set trace. callHasContent c \<Longrightarrow>
   \<forall>c\<in>set (fst (executeLoop col endOnError stmts trace)). callHasContent c"
proof (induction stmts arbitrary: trace)
  case Nil
  then show ?case by simp
next
  case (Cons stmt rest)
  show ?case
  proof (cases "TrimSpace (SQL stmt) = []")
    case True
    with Cons show ?thesis by simp
  next
    case False
    obtain command filterArg where pc: "ParseSchemaCommand (SQL stmt) = (command, filterArg)"
      by (cases "ParseSchemaCommand (SQL stmt)")
    with command_content [OF False] have c: "TrimSpace command \<noteq> []"
      by simp
    have 1: "\<forall>c\<in>set (trace @ [SchemaCall command filterArg]). callHasContent c"
      using Cons.prems c by simp
    have 2: "\<forall>c\<in>set (trace @ [ExecuteCall (SQL stmt) (OriginalLine (Location stmt))
                               (OriginalFile (Location stmt))]). callHasContent c"
      using Cons.prems False by simp
    from Cons.IH [OF 1] Cons.IH [OF 2] 1 2 False show ?thesis
      by (simp add: pc Let_def del: set_append)
  qed
qed
text \<open>
  Claim C7 fails as stated: a batch of blank lines before a delimiter is flushed,
  since the builder is not empty, and the assembler emits a statement whose text
  is empty.
\<close>

theorem blank_batch_is_emitted:
  "parseStatementsFromLines ['''', ''go''] [lineOrigin ''main.sql'' 1, lineOrigin ''main.sql'' 2] =
     [\<lparr>SQL = [], StmtStartLine = 1, StmtEndLine = 1, StmtFileName = ''main.sql'',
       Location = lineOrigin ''main.sql'' 1\<rparr>]"
  by code_simp

text \<open>
  Claim C7, amended. The text of every assembled statement is trimmed, and
  \<open>executeStatements\<close> skips the statements without content: every statement it
  hands to the introspector or to the executor has a character that is not white
  space, whatever the collaborators answer.
\<close>

theorem statements_trimmed_and_blank_ones_skipped:
  "(\<forall>s\<in>set (parseStatementsFromLines lines locs). TrimSpace (SQL s) = SQL s) \<and>
   (\<forall>c\<in>set (fst (executeStatements col endOnError (parseStatementsFromLines lines locs))).
      callHasContent c)"
  using parse_trimmed executeLoop_content [of "[]"]
  by (simp add: executeStatements_def)
text \<open>
  Two blank lines, a delimiter, a batch and a directive: three statements are
  assembled, the first one empty, and two calls are made.
\<close>

theorem statements_trimmed_witness:
  "map SQL (parseStatementsFromLines blankBatch blankBatchOrigins) =
     ['''', ''SELECT 1;'', ''@drivers''] \<and>
   list_all (\<lambda>s. TrimSpace (SQL s) = SQL s) (parseStatementsFromLines blankBatch blankBatchOrigins) \<and>
   fst (executeStatements quiet False (parseStatementsFromLines blankBatch blankBatchOrigins)) =
     [ExecuteCall ''SELECT 1;'' 4 ''main.sql'', SchemaCall ''@drivers'' []] \<and>
   list_all callHasContent
     (fst (executeStatements quiet False (parseStatementsFromLines blankBatch blankBatchOrigins)))"
proof -
  have 1: "map SQL (parseStatementsFromLines blankBatch blankBatchOrigins) =
     ['''', ''SELECT 1;'', ''@drivers'']"
    by code_simp
  have 2: "fst (executeStatements quiet False (parseStatementsFromLines blankBatch blankBatchOrigins)) =
     [ExecuteCall ''SELECT 1;'' 4 ''main.sql'', SchemaCall ''@drivers'' []]"
    by code_simp
  from statements_trimmed_and_blank_ones_skipped [of blankBatch blankBatchOrigins quiet False] 1 2
  show ?thesis
    unfolding list_all_iff by blast
qed


section \<open>Origins across files\<close>








section \<open>The value of a define\<close>





















section \<open>Inclusion inside an open frame\<close>














end
